theory Spec2Isabelle
  imports Main
begin

section \<open>The message poller of seadrive-gui (src/message-poller.cpp)\<close>

text \<open>
  A shallow embedding of \<^verbatim>\<open>MessagePoller\<close>: the decoders \<^verbatim>\<open>fromJson\<close>, the four
  timer slots, the two dispatch methods and the two daemon life-cycle slots. Every call
  the code makes on a collaborator (tray icon, RPC client, dialogs, log) is an
  \<open>action\<close>; a method returns the list of actions it performs, in order, and the
  poller's new state when it has one.
\<close>

subsection \<open>Payloads (jansson values read through the Json wrapper)\<close>

datatype json =
    JNull
  | JBool bool
  | JInt int
  | JString string
  | JArray "json list"
  | JObject "(string \<times> json) list"

text \<open>\<^verbatim>\<open>json_object_get\<close>: the member of an object, nothing for a missing key or a
  value that is not an object.\<close>

definition json_object_get :: "json \<Rightarrow> string \<Rightarrow> json option" where
  "json_object_get root key = (case root of JObject kvs \<Rightarrow> map_of kvs key | _ \<Rightarrow> None)"

text \<open>Modelled from the spec: \<^verbatim>\<open>Json::getString\<close>, \<^verbatim>\<open>Json::getLong\<close> and
  \<^verbatim>\<open>Json::getBool\<close> of utils/json-utils, which is not under src/. The spec: every field
  access is a defaulting lookup; absent fields default to empty-string/0/false on read.\<close>

definition getString :: "json \<Rightarrow> string \<Rightarrow> string" where
  "getString root key = (case json_object_get root key of Some (JString s) \<Rightarrow> s | _ \<Rightarrow> [])"

definition getLong :: "json \<Rightarrow> string \<Rightarrow> int" where
  "getLong root key = (case json_object_get root key of Some (JInt i) \<Rightarrow> i | _ \<Rightarrow> 0)"

definition getBool :: "json \<Rightarrow> string \<Rightarrow> bool" where
  "getBool root key = (case json_object_get root key of Some (JBool b) \<Rightarrow> b | _ \<Rightarrow> False)"

subsection \<open>QString operations the file uses\<close>

definition startsWith :: "string \<Rightarrow> string \<Rightarrow> bool" where
  "startsWith s p = (take (length p) s = p)"

text \<open>\<^verbatim>\<open>QString::split\<close> on a one-character separator, empty parts kept: the result is
  never empty.\<close>

fun split :: "char \<Rightarrow> string \<Rightarrow> string list" where
  "split sep [] = [[]]"
| "split sep (c # cs) =
     (if c = sep then [] # split sep cs
      else (case split sep cs of
              w # ws \<Rightarrow> (c # w) # ws
            | [] \<Rightarrow> [[c]]))"

definition isSpace :: "char \<Rightarrow> bool" where
  "isSpace c = (c = CHR '' '' \<or> c = CHR 0x09 \<or> c = CHR 0x0A \<or> c = CHR 0x0B
                \<or> c = CHR 0x0C \<or> c = CHR 0x0D)"

definition trimmed :: "string \<Rightarrow> string" where
  "trimmed s = rev (dropWhile isSpace (rev (dropWhile isSpace s)))"

text \<open>\<^verbatim>\<open>QObject::tr\<close> with no translation catalogue installed: the source text.\<close>

definition tr :: "string \<Rightarrow> string" where
  "tr s = s"

text \<open>
  \<^verbatim>\<open>QString::arg\<close>. A place marker is \<^verbatim>\<open>%\<close>, an optional \<^verbatim>\<open>L\<close>, then one or two
  digits. \<open>escapes\<close> splits a format into literal characters and markers (a marker keeps
  its own text); \<open>arg\<close> replaces every marker of the lowest number, \<open>arg2\<close> (the overload
  with two strings) replaces in one pass the lowest number by the first string and the
  next number by the second. A format with no marker is returned as it is.
\<close>

datatype token = Lit char | Esc nat string

definition digitValue :: "char \<Rightarrow> nat option" where
  "digitValue c =
     (let code = (of_char c :: nat) in
      if of_char CHR ''0'' \<le> code \<and> code \<le> of_char CHR ''9''
      then Some (code - of_char CHR ''0'') else None)"

fun escapes :: "string \<Rightarrow> token list" where
  "escapes [] = []"
| "escapes [c] = [Lit c]"
| "escapes (c # d # cs) =
     (if c \<noteq> CHR ''%'' then Lit c # escapes (d # cs)
      else if d = CHR ''L'' then
        (case cs of
           [] \<Rightarrow> [Lit c, Lit d]
         | e # es \<Rightarrow>
             (case digitValue e of
                None \<Rightarrow> Lit c # Lit d # escapes (e # es)
              | Some n \<Rightarrow>
                  (case es of
                     [] \<Rightarrow> [Esc n [c, d, e]]
                   | f # fs \<Rightarrow>
                       (case digitValue f of
                          None \<Rightarrow> Esc n [c, d, e] # escapes (f # fs)
                        | Some m \<Rightarrow> Esc (10 * n + m) [c, d, e, f] # escapes fs))))
      else
        (case digitValue d of
           None \<Rightarrow> Lit c # escapes (d # cs)
         | Some n \<Rightarrow>
             (case cs of
                [] \<Rightarrow> [Esc n [c, d]]
              | f # fs \<Rightarrow>
                  (case digitValue f of
                     None \<Rightarrow> Esc n [c, d] # escapes (f # fs)
                   | Some m \<Rightarrow> Esc (10 * n + m) [c, d, f] # escapes fs))))"

fun escape_numbers :: "token list \<Rightarrow> nat list" where
  "escape_numbers [] = []"
| "escape_numbers (Lit c # ts) = escape_numbers ts"
| "escape_numbers (Esc n raw # ts) = n # escape_numbers ts"

fun lowest :: "nat list \<Rightarrow> nat option" where
  "lowest [] = None"
| "lowest (n # ns) = (case lowest ns of None \<Rightarrow> Some n | Some m \<Rightarrow> Some (min n m))"

fun replace_escapes :: "(nat \<Rightarrow> string option) \<Rightarrow> token list \<Rightarrow> string" where
  "replace_escapes f [] = []"
| "replace_escapes f (Lit c # ts) = c # replace_escapes f ts"
| "replace_escapes f (Esc n raw # ts) =
     (case f n of Some a \<Rightarrow> a | None \<Rightarrow> raw) @ replace_escapes f ts"

definition arg :: "string \<Rightarrow> string \<Rightarrow> string" where
  "arg fmt a =
     (let ts = escapes fmt in
      case lowest (escape_numbers ts) of
        None \<Rightarrow> fmt
      | Some m \<Rightarrow> replace_escapes (\<lambda>n. if n = m then Some a else None) ts)"

definition arg2 :: "string \<Rightarrow> string \<Rightarrow> string \<Rightarrow> string" where
  "arg2 fmt a b =
     (let ts = escapes fmt; ns = escape_numbers ts in
      case lowest ns of
        None \<Rightarrow> fmt
      | Some m \<Rightarrow>
          (let m2 = lowest (filter (\<lambda>n. n \<noteq> m) ns) in
           replace_escapes
             (\<lambda>n. if n = m then Some a else if Some n = m2 then Some b else None) ts))"

subsection \<open>Path helpers\<close>

text \<open>Modelled from the spec: \<^verbatim>\<open>getBaseName\<close> and \<^verbatim>\<open>getParentPath\<close> of utils/file-utils,
  which is not under src/. The spec calls them basename(path) and parent-path(path): the
  text after the last \<^verbatim>\<open>/\<close>, and the text before it.\<close>

definition getBaseName :: "string \<Rightarrow> string" where
  "getBaseName p = last (split CHR ''/'' p)"

definition getParentPath :: "string \<Rightarrow> string" where
  "getParentPath p = take (length p - Suc (length (getBaseName p))) p"

subsection \<open>Collaborators\<close>

text \<open>Modelled from the spec: \<^verbatim>\<open>SyncError\<close> of rpc/sync-error, which is not under src/,
  is an opaque list item that is decoded elsewhere; an item keeps the payload it was
  decoded from.\<close>

datatype SyncError = SyncError json

datatype MessageIcon = NoIcon | Information | Warning | Critical

text \<open>
  The calls the poller makes, as values. Modelled from the spec: the tray icon's
  \<^verbatim>\<open>showMessage(title, body, repoId?, commitId?, parentCommitId?, severity?)\<close> is declared
  in ui/tray-icon.h, which is not under src/; an argument the call leaves out is the empty
  string, and the severity left out is \<open>Information\<close> (the spec's show-info).
  An account is named by the domain id it was looked up with.
\<close>

datatype action =
    QWarning string
  | QDebug string
  | ShowMessage string string string string string MessageIcon
  | ShowWarningMessage string string
  | Rotate bool
  | SetTransferRate int int
  | SetSyncErrors "SyncError list"
  | DeletingConfirmationBox string string
  | AddDelConfirmation string bool
  | EmitSeadriveFSLoaded
  | DoShareLink string string string
  | DoInternalLink string string string "bool option"
  | DoGetUploadLink string string string
  | DoShowFileHistory string string string

text \<open>
  What the file reads from outside itself: the build's platform, the settings, the answer
  of the confirmation dialog to a given text, and the helpers of other files
  (\<^verbatim>\<open>translateCommitDesc\<close>, \<^verbatim>\<open>SyncError::syncErrorIdToErrorStr\<close>,
  \<^verbatim>\<open>SyncError::listFromJSON\<close>, the account manager, and \<^verbatim>\<open>QRegularExpression\<close>: the
  captured groups 1, 2, ... of the first match of a pattern in a subject).
\<close>

record env =
  Q_OS_MAC :: bool
  notify :: bool
  getHideWindowsIncompatibilityPathMsg :: bool
  SYNC_ERROR_ID_INVALID_PATH_ON_WINDOWS :: int
  translateCommitDesc :: "string \<Rightarrow> string"
  syncErrorIdToErrorStr :: "int \<Rightarrow> string \<Rightarrow> string"
  listFromJSON :: "json \<Rightarrow> SyncError list"
  confirmationBoxAnswer :: "string \<Rightarrow> string \<Rightarrow> bool"
  accountIsValid :: "string \<Rightarrow> bool"
  regexMatch :: "string \<Rightarrow> string \<Rightarrow> string list option"

text \<open>The RPC client as one slot sees it: whether the daemon is connected, and what each
  request returns (\<open>None\<close>: the request failed or nothing is pending).\<close>

record SeafileRpcClient =
  isConnected :: bool
  getSeaDriveEvents :: "json option"
  getSyncNotification :: "json option"
  getGlobalSyncStatus :: "json option"
  getSyncErrors :: "json option"

text \<open>The tray icon's error list after a run of actions: \<^verbatim>\<open>setSyncErrors\<close> replaces the
  whole list, nothing else touches it.\<close>

fun trayIcon_sync_errors :: "SyncError list \<Rightarrow> action list \<Rightarrow> SyncError list" where
  "trayIcon_sync_errors errs [] = errs"
| "trayIcon_sync_errors errs (SetSyncErrors es # as) = trayIcon_sync_errors es as"
| "trayIcon_sync_errors errs (a # as) = trayIcon_sync_errors errs as"

subsection \<open>QTimer\<close>

text \<open>
  \<^verbatim>\<open>QTimer\<close> holds the id of the timer it has registered with the event dispatcher
  (\<open>None\<close>: \<^verbatim>\<open>INV_TIMER\<close>) and its interval. The dispatcher's registered timers are a list
  of id and interval. \<^verbatim>\<open>start(msec)\<close> sets the interval, stops the timer if it runs, and
  registers a new one; \<^verbatim>\<open>stop()\<close> unregisters it if it runs.
\<close>

record QTimer =
  timer_id :: "nat option"
  inter :: int

type_synonym dispatcher = "(nat \<times> int) list"

definition startTimer :: "int \<Rightarrow> dispatcher \<Rightarrow> nat \<times> dispatcher" where
  "startTimer interval ts =
     (let i = Suc (fold max (map fst ts) 0) in (i, ts @ [(i, interval)]))"

definition killTimer :: "nat \<Rightarrow> dispatcher \<Rightarrow> dispatcher" where
  "killTimer i ts = filter (\<lambda>r. fst r \<noteq> i) ts"

definition QTimer_stop :: "QTimer \<times> dispatcher \<Rightarrow> QTimer \<times> dispatcher" where
  "QTimer_stop td =
     (case timer_id (fst td) of
        None \<Rightarrow> td
      | Some i \<Rightarrow> ((fst td)\<lparr>timer_id := None\<rparr>, killTimer i (snd td)))"

definition QTimer_start :: "int \<Rightarrow> QTimer \<times> dispatcher \<Rightarrow> QTimer \<times> dispatcher" where
  "QTimer_start msec td =
     (let td1 = QTimer_stop ((fst td)\<lparr>inter := msec\<rparr>, snd td);
          r = startTimer (inter (fst td1)) (snd td1)
      in ((fst td1)\<lparr>timer_id := Some (fst r)\<rparr>, snd r))"

subsection \<open>The decoded records\<close>

definition kCheckNotificationIntervalMSecs :: int where
  "kCheckNotificationIntervalMSecs = 1000"

record GlobalSyncStatus =
  is_syncing :: bool
  sent_bytes :: int
  recv_bytes :: int

datatype FsOpError = UNKNOWN_ERROR | CREATE_ROOT_FILE | REMOVE_REPO

record SeaDriveEvent =
  fs_op_error :: FsOpError
  event_path :: string
  event_type :: string

text \<open>\<^verbatim>\<open>SeaDriveEvent::fromJson\<close>: the event, and the warning it logs for a type it does
  not know.\<close>

definition SeaDriveEvent_fromJson :: "json \<Rightarrow> action list \<times> SeaDriveEvent" where
  "SeaDriveEvent_fromJson root =
     (let type = getString root ''type'';
          r = (if type = ''fs_op_error.create_root_file'' then ([], CREATE_ROOT_FILE)
               else if type = ''fs_op_error.remove_repo'' then ([], REMOVE_REPO)
               else ([QWarning (''unknown type of seadrive event '' @ type)], UNKNOWN_ERROR))
      in (fst r,
          \<lparr>fs_op_error = snd r, event_path = getString root ''path'', event_type = type\<rparr>))"

text \<open>
  Modelled from the spec: \<^verbatim>\<open>struct SyncNotification\<close> is declared in message-poller.h,
  which is not under src/; its fields are the ones this file assigns and reads, and its
  two predicates are the spec's: the sync-error variant is the tag \<^verbatim>\<open>sync.error\<close>, a
  cross-repo move is a tag with the prefix \<^verbatim>\<open>cross-repo-move.\<close>. A string of a newly
  constructed record is empty; \<^verbatim>\<open>error_id\<close> and \<^verbatim>\<open>is_dir\<close> are \<open>None\<close> until the decoder
  assigns them.
\<close>

record MoveInfo =
  src_path :: string
  dst_path :: string
  move_type :: string

record SyncNotification =
  n_type :: string
  repo_id :: string
  repo_name :: string
  commit_id :: string
  parent_commit_id :: string
  commit_desc :: string
  error_id :: "int option"
  error_path :: string
  error :: string
  move :: MoveInfo
  confirmation_id :: string
  delete_files :: string
  repo_path :: string
  domain_id :: string
  is_dir :: "bool option"

definition SyncNotification_new :: SyncNotification where
  "SyncNotification_new =
     \<lparr>n_type = [], repo_id = [], repo_name = [], commit_id = [], parent_commit_id = [],
      commit_desc = [], error_id = None, error_path = [], error = [],
      move = \<lparr>src_path = [], dst_path = [], move_type = []\<rparr>,
      confirmation_id = [], delete_files = [], repo_path = [], domain_id = [],
      is_dir = None\<rparr>"

definition isSyncError :: "SyncNotification \<Rightarrow> bool" where
  "isSyncError n = (n_type n = ''sync.error'')"

definition isCrossRepoMove :: "SyncNotification \<Rightarrow> bool" where
  "isCrossRepoMove n = startsWith (n_type n) ''cross-repo-move.''"

definition SyncNotification_fromJson :: "env \<Rightarrow> json \<Rightarrow> SyncNotification" where
  "SyncNotification_fromJson e root =
     (let n = SyncNotification_new\<lparr>n_type := getString root ''type''\<rparr> in
      if startsWith (n_type n) ''cross-repo-move.'' then
        n\<lparr>move := \<lparr>src_path = getString root ''srcpath'',
                   dst_path = getString root ''dstpath'',
                   move_type = last (split CHR ''.'' (n_type n))\<rparr>\<rparr>
      else if n_type n = ''del_confirmation'' then
        n\<lparr>repo_name := getString root ''repo_name'',
          confirmation_id := getString root ''confirmation_id'',
          delete_files := getString root ''delete_files''\<rparr>
      else if n_type n = ''del_repo_confirmation'' then
        n\<lparr>repo_name := getString root ''repo_name'',
          confirmation_id := getString root ''confirmation_id''\<rparr>
      else if n_type n = ''action.get_share_link'' \<or>
              n_type n = ''action.get_internal_link'' \<or>
              n_type n = ''action.get_upload_link'' \<or>
              n_type n = ''action.view_file_history'' then
        n\<lparr>repo_id := getString root ''repo_id'',
          repo_path := getString root ''repo_path'',
          domain_id := getString root ''domain_id'',
          is_dir := Some (getBool root ''is_dir'')\<rparr>
      else
        (let n1 = n\<lparr>repo_id := getString root ''repo_id'',
                     repo_name := getString root ''repo_name'',
                     commit_id := getString root ''commit_id'',
                     parent_commit_id := getString root ''parent_commit_id'',
                     commit_desc := getString root ''commit_desc''\<rparr> in
         if isSyncError n1 then
           (let eid = getLong root ''err_id'';
                n2 = n1\<lparr>error_id := Some eid, error_path := getString root ''path''\<rparr> in
            n2\<lparr>error := syncErrorIdToErrorStr e eid (error_path n2)\<rparr>)
         else n1))"

definition GlobalSyncStatus_fromJson :: "json \<Rightarrow> GlobalSyncStatus" where
  "GlobalSyncStatus_fromJson root =
     \<lparr>is_syncing = (getLong root ''is_syncing'' \<noteq> 0),
      sent_bytes = getLong root ''sent_bytes'',
      recv_bytes = getLong root ''recv_bytes''\<rparr>"

subsection \<open>The poller\<close>

record MessagePoller =
  check_notification_timer :: QTimer
  last_event_path :: string
  last_event_type :: string

text \<open>The constructor: a timer that does not run yet.\<close>

definition MessagePoller_new :: MessagePoller where
  "MessagePoller_new =
     \<lparr>check_notification_timer = \<lparr>timer_id = None, inter = 0\<rparr>,
      last_event_path = [], last_event_type = []\<rparr>"

text \<open>\<^verbatim>\<open>start()\<close> starts the timer. On Windows it also connects the two life-cycle slots
  below to the daemon manager's signals; the connections are no part of the state. The
  poller and the dispatcher's registered timers are passed and returned together.\<close>

definition start :: "MessagePoller \<times> dispatcher \<Rightarrow> MessagePoller \<times> dispatcher" where
  "start pd =
     (let td = QTimer_start kCheckNotificationIntervalMSecs
                 (check_notification_timer (fst pd), snd pd)
      in ((fst pd)\<lparr>check_notification_timer := fst td\<rparr>, snd td))"

definition onDaemonDead ::
  "MessagePoller \<times> dispatcher \<Rightarrow> action list \<times> MessagePoller \<times> dispatcher" where
  "onDaemonDead pd =
     (let td = QTimer_stop (check_notification_timer (fst pd), snd pd)
      in ([QDebug ''pausing message poller when daemon is dead''],
          (fst pd)\<lparr>check_notification_timer := fst td\<rparr>, snd td))"

definition onDaemonRestarted ::
  "MessagePoller \<times> dispatcher \<Rightarrow> action list \<times> MessagePoller \<times> dispatcher" where
  "onDaemonRestarted pd =
     (let td = QTimer_start kCheckNotificationIntervalMSecs
                 (check_notification_timer (fst pd), snd pd)
      in ([], (fst pd)\<lparr>check_notification_timer := fst td\<rparr>, snd td))"

definition processSeaDriveEvent ::
  "SeaDriveEvent \<Rightarrow> MessagePoller \<Rightarrow> action list \<times> MessagePoller" where
  \<open>processSeaDriveEvent event p =
     (let p1 = p\<lparr>last_event_path := event_path event\<rparr> in
      if event_type event = ''file-download.start'' then
        ([ShowMessage (tr ''Download file'')
            (arg (tr ''Start to download file "%1" '') (getBaseName (event_path event)))
            [] [] [] Information],
         p1\<lparr>last_event_type := event_type event\<rparr>)
      else if event_type event = ''file-download.done'' then
        ([ShowMessage (tr ''Download file'')
            (arg (tr ''file "%1" has been downloaded '') (getBaseName (event_path event)))
            [] [] [] Information],
         p1\<lparr>last_event_type := event_type event\<rparr>)
      else
        (case fs_op_error event of
           CREATE_ROOT_FILE \<Rightarrow>
             ([ShowWarningMessage
                 (arg (tr ''Failed to create file "%1"'') (getBaseName (event_path event)))
                 (tr ''You can't create files in the mount folder directly'')], p1)
         | REMOVE_REPO \<Rightarrow>
             ([ShowWarningMessage
                 (tr ''Failed to delete folder'')
                 (arg (tr ''You can't delete the library "%1" directly'')
                    (getBaseName (event_path event)))], p1)
         | UNKNOWN_ERROR \<Rightarrow> ([], p1)))\<close>

definition processNotification :: "env \<Rightarrow> SyncNotification \<Rightarrow> action list" where
  \<open>processNotification e notification =
     (if n_type notification = ''sync.done'' then
        (if \<not> notify e then []
         else [ShowMessage (arg (tr ''"%1" is synchronized'') (repo_name notification))
                 (translateCommitDesc e (commit_desc notification))
                 (repo_id notification) (commit_id notification)
                 (parent_commit_id notification) Information])
      else if n_type notification = ''sync.error'' then
        (if Q_OS_MAC e
            \<and> error_id notification = Some (SYNC_ERROR_ID_INVALID_PATH_ON_WINDOWS e)
            \<and> getHideWindowsIncompatibilityPathMsg e then []
         else
           (let path_in_title =
                  (if repo_name notification \<noteq> [] then repo_name notification
                   else if error_path notification \<noteq> []
                        then getBaseName (error_path notification)
                   else []);
                title =
                  (if path_in_title \<noteq> []
                   then arg (tr ''Error when syncing "%1"'') path_in_title
                   else tr ''Error when syncing'')
            in [ShowMessage title (error notification) (repo_id notification) [] []
                  Warning]))
      else if n_type notification = ''sync.multipart_upload'' then
        (if \<not> notify e then []
         else [ShowMessage (arg (tr ''"%1" is being uploaded'') (repo_name notification))
                 (translateCommitDesc e (commit_desc notification))
                 (repo_id notification) (commit_id notification)
                 (parent_commit_id notification) Information])
      else if n_type notification = ''fs-loaded'' then
        [ShowMessage (tr ''Libraries are ready'')
           (tr ''All libraries are loaded and ready to use.'') [] [] [] Information,
         EmitSeadriveFSLoaded]
      else if isCrossRepoMove notification then
        (let src = getBaseName (src_path (move notification));
             dst = getParentPath (dst_path (move notification)) @ ''/'';
             tm =
               (if move_type (move notification) = ''start'' then
                  (arg (tr ''Starting to move "%1"'') src,
                   arg2 (tr ''Starting to move "%1" to "%2"'') src dst)
                else if move_type (move notification) = ''done'' then
                  (arg (tr ''Successfully moved "%1"'') src,
                   arg2 (tr ''Successfully moved "%1" to "%2"'') src dst)
                else if move_type (move notification) = ''error'' then
                  (arg (tr ''Failed to move "%1"'') src,
                   arg2 (tr ''Failed to move "%1" to "%2"'') src dst)
                else ([], []))
         in [ShowMessage (fst tm) (snd tm) [] [] [] Information])
      else if n_type notification = ''del_confirmation'' then
        (let text =
               (case regexMatch e ''Deleted "(.+)" and (.+) more files.''
                       (trimmed (delete_files notification)) of
                  Some (c1 # c2 # cs) \<Rightarrow>
                    arg (arg (tr ''Deleted "%1" and %2 more files.'') c1) c2
                | _ \<Rightarrow> []);
             info = arg (tr ''Do you want to delete files in library "%1" ?'')
                      (trimmed (repo_name notification))
         in [DeletingConfirmationBox text info,
             (if confirmationBoxAnswer e text info
              then AddDelConfirmation (confirmation_id notification) False
              else AddDelConfirmation (confirmation_id notification) True)])
      else if n_type notification = ''del_repo_confirmation'' then
        (let text = arg (tr ''Deleted library "%1"'') (trimmed (repo_name notification));
             info = arg (tr ''Confirm to delete library "%1" ?'')
                      (trimmed (repo_name notification))
         in [DeletingConfirmationBox text info,
             (if confirmationBoxAnswer e text info
              then AddDelConfirmation (confirmation_id notification) False
              else AddDelConfirmation (confirmation_id notification) True)])
      else if n_type notification = ''action.get_share_link'' then
        (if \<not> Q_OS_MAC e then []
         else if \<not> accountIsValid e (domain_id notification) then []
         else [DoShareLink (domain_id notification) (repo_id notification)
                 (repo_path notification)])
      else if n_type notification = ''action.get_internal_link'' then
        (if \<not> Q_OS_MAC e then []
         else if \<not> accountIsValid e (domain_id notification) then []
         else [DoInternalLink (domain_id notification) (repo_id notification)
                 (repo_path notification) (is_dir notification)])
      else if n_type notification = ''action.get_upload_link'' then
        (if \<not> Q_OS_MAC e then []
         else if \<not> accountIsValid e (domain_id notification) then []
         else [DoGetUploadLink (domain_id notification) (repo_id notification)
                 (repo_path notification)])
      else if n_type notification = ''action.view_file_history'' then
        (if \<not> Q_OS_MAC e then []
         else if \<not> accountIsValid e (domain_id notification) then []
         else [DoShowFileHistory (domain_id notification) (repo_id notification)
                 (repo_path notification)])
      else [QWarning (''Unknown message '' @ n_type notification @ [CHR 0x0A])])\<close>

subsection \<open>The four timer slots\<close>

definition checkSeaDriveEvents ::
  "SeafileRpcClient \<Rightarrow> MessagePoller \<Rightarrow> action list \<times> MessagePoller" where
  "checkSeaDriveEvents rpc_client p =
     (if \<not> isConnected rpc_client then ([], p)
      else (case getSeaDriveEvents rpc_client of
              None \<Rightarrow> ([], p)
            | Some ret \<Rightarrow>
                (let le = SeaDriveEvent_fromJson ret;
                     r = processSeaDriveEvent (snd le) p
                 in (fst le @ fst r, snd r))))"

definition checkNotification ::
  "env \<Rightarrow> SeafileRpcClient \<Rightarrow> MessagePoller \<Rightarrow> action list \<times> MessagePoller" where
  "checkNotification e rpc_client p =
     (if \<not> isConnected rpc_client then ([], p)
      else (case getSyncNotification rpc_client of
              None \<Rightarrow> ([], p)
            | Some ret \<Rightarrow> (processNotification e (SyncNotification_fromJson e ret), p)))"

definition checkSyncStatus ::
  "SeafileRpcClient \<Rightarrow> MessagePoller \<Rightarrow> action list \<times> MessagePoller" where
  "checkSyncStatus rpc_client p =
     (if \<not> isConnected rpc_client then ([], p)
      else (case getGlobalSyncStatus rpc_client of
              None \<Rightarrow> ([], p)
            | Some ret \<Rightarrow>
                (let sync_status = GlobalSyncStatus_fromJson ret in
                 if is_syncing sync_status then
                   ([Rotate True,
                     SetTransferRate (sent_bytes sync_status) (recv_bytes sync_status)], p)
                 else ([Rotate False, SetTransferRate 0 0], p))))"

definition checkSyncErrors ::
  "env \<Rightarrow> SeafileRpcClient \<Rightarrow> MessagePoller \<Rightarrow> action list \<times> MessagePoller" where
  "checkSyncErrors e rpc_client p =
     (if \<not> isConnected rpc_client then ([], p)
      else (case getSyncErrors rpc_client of
              None \<Rightarrow> ([SetSyncErrors []], p)
            | Some ret \<Rightarrow> ([SetSyncErrors (listFromJSON e ret)], p)))"

subsection \<open>Reading the results\<close>

text \<open>\<^verbatim>\<open>QString::contains\<close>: the second string occurs in the first.\<close>

fun contains :: "string \<Rightarrow> string \<Rightarrow> bool" where
  "contains [] sub = (sub = [])"
| "contains (c # cs) sub = (startsWith (c # cs) sub \<or> contains cs sub)"

text \<open>A build and a desktop for the concrete runs below: not a Mac, notifications on,
  a user who answers every confirmation with yes.\<close>

definition sample_env :: env where
  "sample_env =
     \<lparr>Q_OS_MAC = False, notify = True, getHideWindowsIncompatibilityPathMsg = False,
      SYNC_ERROR_ID_INVALID_PATH_ON_WINDOWS = 0,
      translateCommitDesc = (\<lambda>d. d),
      syncErrorIdToErrorStr = (\<lambda>i path. ''sync error''),
      listFromJSON = (\<lambda>j. case j of JArray xs \<Rightarrow> map SyncError xs | _ \<Rightarrow> []),
      confirmationBoxAnswer = (\<lambda>text info. True),
      accountIsValid = (\<lambda>d. True),
      regexMatch = (\<lambda>pattern subject. None)\<rparr>"

definition disconnected :: SeafileRpcClient where
  "disconnected =
     \<lparr>isConnected = False, getSeaDriveEvents = None, getSyncNotification = None,
      getGlobalSyncStatus = None, getSyncErrors = None\<rparr>"

definition connected_idle :: SeafileRpcClient where
  "connected_idle = disconnected\<lparr>isConnected := True\<rparr>"

text \<open>The payload of the scenario of claim C4.\<close>

definition create_root_file_payload :: json where
  "create_root_file_payload =
     JObject [(''type'', JString ''fs_op_error.create_root_file''),
              (''path'', JString ''/mnt/x/foo.txt'')]"

text \<open>The calls that answer the daemon's confirmation request.\<close>

fun isAddDelConfirmation :: "action \<Rightarrow> bool" where
  "isAddDelConfirmation (AddDelConfirmation i b) = True"
| "isAddDelConfirmation a = False"

text \<open>A deletion the daemon asks to have confirmed.\<close>

definition del_confirmation_payload :: json where
  "del_confirmation_payload =
     JObject [(''type'', JString ''del_confirmation''),
              (''repo_name'', JString ''Docs''),
              (''confirmation_id'', JString ''c-17''),
              (''delete_files'', JString ''Deleted 5 files'')]"

text \<open>A move across libraries, with the tag left open.\<close>

definition cross_repo_move_payload :: "string \<Rightarrow> json" where
  "cross_repo_move_payload tag =
     JObject [(''type'', JString tag), (''srcpath'', JString ''/lib1/a/b.txt''),
              (''dstpath'', JString ''/lib2/dir/b.txt'')]"

subsection \<open>Daemon life-cycle signals\<close>

text \<open>The signals that reach the poller's life-cycle slots, delivered one after the other
  (the actions, a debug line, are dropped).\<close>

datatype signal = Started | DaemonDead | DaemonRestarted

fun deliver :: "signal \<Rightarrow> MessagePoller \<times> dispatcher \<Rightarrow> MessagePoller \<times> dispatcher" where
  "deliver Started pd = start pd"
| "deliver DaemonDead pd = snd (onDaemonDead pd)"
| "deliver DaemonRestarted pd = snd (onDaemonRestarted pd)"

fun run_signals ::
  "signal list \<Rightarrow> MessagePoller \<times> dispatcher \<Rightarrow> MessagePoller \<times> dispatcher" where
  "run_signals [] pd = pd"
| "run_signals (s # ss) pd = run_signals ss (deliver s pd)"

text \<open>The dispatcher holds exactly what the poller's timer says it has registered: no
  timer when it is stopped, one timer with its interval when it runs.\<close>

fun registered_once :: "MessagePoller \<times> dispatcher \<Rightarrow> bool" where
  "registered_once (p, d) =
     (d = (case timer_id (check_notification_timer p) of
             None \<Rightarrow> []
           | Some i \<Rightarrow> [(i, inter (check_notification_timer p))]))"

text \<open>The tags \<^verbatim>\<open>processNotification\<close> compares a notification's type with; a tag is
  unknown when it is none of them and no cross-repo move.\<close>

definition known_tags :: "string list" where
  "known_tags =
     [''sync.done'', ''sync.error'', ''sync.multipart_upload'', ''fs-loaded'',
      ''del_confirmation'', ''del_repo_confirmation'', ''action.get_share_link'',
      ''action.get_internal_link'', ''action.get_upload_link'', ''action.view_file_history'']"

definition unknown_tag :: "string \<Rightarrow> bool" where
  "unknown_tag t = (\<not> startsWith t ''cross-repo-move.'' \<and> t \<notin> set known_tags)"

text \<open>A payload with a tag of no known variant, and one with no tag at all.\<close>

definition unknown_tag_payload :: json where
  "unknown_tag_payload = JObject [(''type'', JString ''foo''), (''repo_id'', JString ''r1'')]"

definition payload_without_type :: json where
  "payload_without_type = JObject [(''path'', JString ''/mnt/x/foo.txt'')]"

section \<open>Properties\<close>

subsection \<open>The format strings of the file\<close>

lemma arg_download_start:
  \<open>arg ''Start to download file "%1" '' x = ''Start to download file "'' @ x @ ''" ''\<close>
  by (simp add: arg_def digitValue_def)

lemma arg_download_done:
  \<open>arg ''file "%1" has been downloaded '' x = ''file "'' @ x @ ''" has been downloaded ''\<close>
  by (simp add: arg_def digitValue_def)

lemma arg_create_root_file:
  \<open>arg ''Failed to create file "%1"'' x = ''Failed to create file "'' @ x @ ''"''\<close>
  by (simp add: arg_def digitValue_def)

lemma arg_remove_repo:
  \<open>arg ''You can't delete the library "%1" directly'' x =
     ''You can't delete the library "'' @ x @ ''" directly''\<close>
  by (simp add: arg_def digitValue_def)

subsection \<open>Filesystem events\<close>

text \<open>
  Claim C10. An event of type \<^verbatim>\<open>file-download.start\<close> or \<^verbatim>\<open>file-download.done\<close> is
  answered with one informational message titled "Download file" whose body holds the
  base name of the event's path; both \<open>last_event_path\<close> and \<open>last_event_type\<close> are
  written; and nothing else is dispatched (no warning), whatever \<open>fs_op_error\<close> the event
  carries: the decoder gives such a type the kind \<open>UNKNOWN_ERROR\<close>.
\<close>

theorem download_event_shows_info:
  assumes "event_type event = ''file-download.start'' \<or>
           event_type event = ''file-download.done''"
  shows \<open>processSeaDriveEvent event p =
           ([ShowMessage ''Download file''
               (if event_type event = ''file-download.start''
                then ''Start to download file "'' @ getBaseName (event_path event) @ ''" ''
                else ''file "'' @ getBaseName (event_path event) @ ''" has been downloaded '')
               [] [] [] Information],
            p\<lparr>last_event_path := event_path event, last_event_type := event_type event\<rparr>)
         \<and> (getString root ''type'' = event_type event \<longrightarrow>
              fs_op_error (snd (SeaDriveEvent_fromJson root)) = UNKNOWN_ERROR)\<close>
  using assms
  by (auto simp add: processSeaDriveEvent_def SeaDriveEvent_fromJson_def
      arg_download_start arg_download_done tr_def Let_def)

theorem download_event_shows_info_witness:
  \<open>processSeaDriveEvent
      \<lparr>fs_op_error = UNKNOWN_ERROR, event_path = ''/mnt/x/a.bin'',
       event_type = ''file-download.done''\<rparr> MessagePoller_new =
     ([ShowMessage ''Download file'' ''file "a.bin" has been downloaded '' [] [] []
         Information],
      MessagePoller_new\<lparr>last_event_path := ''/mnt/x/a.bin'',
                         last_event_type := ''file-download.done''\<rparr>)
   \<and> fs_op_error (snd (SeaDriveEvent_fromJson
         (JObject [(''type'', JString ''file-download.done''),
                   (''path'', JString ''/mnt/x/a.bin'')]))) = UNKNOWN_ERROR\<close>
  using download_event_shows_info
    [of "\<lparr>fs_op_error = UNKNOWN_ERROR, event_path = ''/mnt/x/a.bin'',
          event_type = ''file-download.done''\<rparr>" MessagePoller_new
        "JObject [(''type'', JString ''file-download.done''),
                  (''path'', JString ''/mnt/x/a.bin'')]"]
  by (simp add: getBaseName_def getString_def json_object_get_def)

text \<open>
  Claim C4, as the code has it. For the payload
  \<^verbatim>\<open>{type: "fs_op_error.create_root_file", path: "/mnt/x/foo.txt"}\<close> the poller
  dispatches one show-warning action. The base name \<^verbatim>\<open>foo.txt\<close> stands in the title of
  the warning; the body is the fixed sentence that files cannot be created in the mount
  folder.
\<close>

theorem create_root_file_warning_names_file_in_title:
  assumes "isConnected rpc_client"
      and "getSeaDriveEvents rpc_client = Some create_root_file_payload"
  shows \<open>checkSeaDriveEvents rpc_client p =
           ([ShowWarningMessage ''Failed to create file "foo.txt"''
               ''You can't create files in the mount folder directly''],
            p\<lparr>last_event_path := ''/mnt/x/foo.txt''\<rparr>)
         \<and> contains ''Failed to create file "foo.txt"'' ''foo.txt''\<close>
  using assms
  by (simp add: checkSeaDriveEvents_def SeaDriveEvent_fromJson_def processSeaDriveEvent_def
      create_root_file_payload_def getString_def json_object_get_def getBaseName_def
      arg_create_root_file tr_def startsWith_def Let_def)

theorem create_root_file_warning_witness:
  \<open>checkSeaDriveEvents (connected_idle\<lparr>getSeaDriveEvents := Some create_root_file_payload\<rparr>)
      MessagePoller_new =
     ([ShowWarningMessage ''Failed to create file "foo.txt"''
         ''You can't create files in the mount folder directly''],
      MessagePoller_new\<lparr>last_event_path := ''/mnt/x/foo.txt''\<rparr>)\<close>
  using create_root_file_warning_names_file_in_title
    [of "connected_idle\<lparr>getSeaDriveEvents := Some create_root_file_payload\<rparr>"
        MessagePoller_new]
  by (simp add: connected_idle_def disconnected_def)

text \<open>The body of that warning does not mention \<^verbatim>\<open>foo.txt\<close>: claim C4 as stated (the
  body references the base name) fails on its own scenario.\<close>

theorem create_root_file_body_counterexample:
  \<open>fst (checkSeaDriveEvents
          (connected_idle\<lparr>getSeaDriveEvents := Some create_root_file_payload\<rparr>)
          MessagePoller_new) =
     [ShowWarningMessage ''Failed to create file "foo.txt"''
        ''You can't create files in the mount folder directly'']
   \<and> \<not> contains ''You can't create files in the mount folder directly'' ''foo.txt''\<close>
  by (simp add: checkSeaDriveEvents_def SeaDriveEvent_fromJson_def processSeaDriveEvent_def
      create_root_file_payload_def getString_def json_object_get_def getBaseName_def
      arg_create_root_file tr_def startsWith_def Let_def connected_idle_def disconnected_def)

text \<open>
  Claim C5, as the code has it. Processing an event always writes \<open>last_event_path\<close>
  from the event's path. It writes \<open>last_event_type\<close> from the event's type only for
  the two file-download types, and leaves it as it was for every other event. Neither
  field is read: what the dispatch method, the four timer slots and the two life-cycle
  slots do (their actions, the timer, the dispatcher) is the same whatever the two fields
  hold.
\<close>

theorem last_event_fields_write_only:
  \<open>last_event_path (snd (processSeaDriveEvent event p)) = event_path event
   \<and> last_event_type (snd (processSeaDriveEvent event p)) =
       (if event_type event = ''file-download.start'' \<or>
           event_type event = ''file-download.done''
        then event_type event else last_event_type p)
   \<and> check_notification_timer (snd (processSeaDriveEvent event p)) =
       check_notification_timer p
   \<and> fst (processSeaDriveEvent event (p\<lparr>last_event_path := x, last_event_type := y\<rparr>)) =
       fst (processSeaDriveEvent event p)
   \<and> fst (checkSeaDriveEvents rpc_client (p\<lparr>last_event_path := x, last_event_type := y\<rparr>)) =
       fst (checkSeaDriveEvents rpc_client p)
   \<and> fst (checkNotification e rpc_client (p\<lparr>last_event_path := x, last_event_type := y\<rparr>)) =
       fst (checkNotification e rpc_client p)
   \<and> fst (checkSyncStatus rpc_client (p\<lparr>last_event_path := x, last_event_type := y\<rparr>)) =
       fst (checkSyncStatus rpc_client p)
   \<and> fst (checkSyncErrors e rpc_client (p\<lparr>last_event_path := x, last_event_type := y\<rparr>)) =
       fst (checkSyncErrors e rpc_client p)
   \<and> fst (onDaemonDead (p\<lparr>last_event_path := x, last_event_type := y\<rparr>, d)) =
       fst (onDaemonDead (p, d))
   \<and> snd (snd (onDaemonDead (p\<lparr>last_event_path := x, last_event_type := y\<rparr>, d))) =
       snd (snd (onDaemonDead (p, d)))
   \<and> fst (onDaemonRestarted (p\<lparr>last_event_path := x, last_event_type := y\<rparr>, d)) =
       fst (onDaemonRestarted (p, d))
   \<and> snd (snd (onDaemonRestarted (p\<lparr>last_event_path := x, last_event_type := y\<rparr>, d))) =
       snd (snd (onDaemonRestarted (p, d)))\<close>
  by (simp add: processSeaDriveEvent_def checkSeaDriveEvents_def checkNotification_def
      checkSyncStatus_def checkSyncErrors_def onDaemonDead_def onDaemonRestarted_def
      QTimer_stop_def QTimer_start_def Let_def
      split: FsOpError.split option.split)

theorem last_event_fields_write_only_witness:
  \<open>last_event_path
      (snd (processSeaDriveEvent
              \<lparr>fs_op_error = REMOVE_REPO, event_path = ''/mnt/x/lib'',
               event_type = ''fs_op_error.remove_repo''\<rparr> MessagePoller_new)) = ''/mnt/x/lib''
   \<and> last_event_type
      (snd (processSeaDriveEvent
              \<lparr>fs_op_error = REMOVE_REPO, event_path = ''/mnt/x/lib'',
               event_type = ''fs_op_error.remove_repo''\<rparr> MessagePoller_new)) = []\<close>
  using last_event_fields_write_only
    [of "\<lparr>fs_op_error = REMOVE_REPO, event_path = ''/mnt/x/lib'',
          event_type = ''fs_op_error.remove_repo''\<rparr>" MessagePoller_new]
  by (simp add: MessagePoller_new_def)

text \<open>An event that is no file download leaves \<open>last_event_type\<close> at its old value, which
  is not the event's type: claim C5 as stated (both fields written for every event)
  fails.\<close>

theorem last_event_type_counterexample:
  \<open>last_event_type
      (snd (processSeaDriveEvent
              \<lparr>fs_op_error = CREATE_ROOT_FILE, event_path = ''/mnt/x/foo.txt'',
               event_type = ''fs_op_error.create_root_file''\<rparr>
              (MessagePoller_new\<lparr>last_event_type := ''file-download.done''\<rparr>))) =
     ''file-download.done''
   \<and> last_event_type
      (snd (processSeaDriveEvent
              \<lparr>fs_op_error = CREATE_ROOT_FILE, event_path = ''/mnt/x/foo.txt'',
               event_type = ''fs_op_error.create_root_file''\<rparr>
              (MessagePoller_new\<lparr>last_event_type := ''file-download.done''\<rparr>))) \<noteq>
     event_type \<lparr>fs_op_error = CREATE_ROOT_FILE, event_path = ''/mnt/x/foo.txt'',
                 event_type = ''fs_op_error.create_root_file''\<rparr>\<close>
  by (simp add: processSeaDriveEvent_def MessagePoller_new_def Let_def)

subsection \<open>The timer slots\<close>

text \<open>
  Claim C1, as the code has it. When \<^verbatim>\<open>isConnected()\<close> is false at the start of a slot,
  the slot returns at once, for each of the four channels: nothing is decoded, classified
  or dispatched, and the poller is as it was. That holds for the sync-errors slot too, so
  a disconnected daemon leaves the tray icon's error list as it was. The list is replaced
  by the empty list when the daemon is connected and the \<^verbatim>\<open>getSyncErrors\<close> request fails.
\<close>

theorem disconnected_slot_is_skipped:
  \<open>(\<not> isConnected rpc_client \<longrightarrow>
       checkSeaDriveEvents rpc_client p = ([], p)
     \<and> checkNotification e rpc_client p = ([], p)
     \<and> checkSyncStatus rpc_client p = ([], p)
     \<and> checkSyncErrors e rpc_client p = ([], p)
     \<and> trayIcon_sync_errors errs (fst (checkSyncErrors e rpc_client p)) = errs)
   \<and> (isConnected rpc_client \<and> getSyncErrors rpc_client = None \<longrightarrow>
       checkSyncErrors e rpc_client p = ([SetSyncErrors []], p)
     \<and> trayIcon_sync_errors errs (fst (checkSyncErrors e rpc_client p)) = [])\<close>
  by (simp add: checkSeaDriveEvents_def checkNotification_def checkSyncStatus_def
      checkSyncErrors_def)

theorem disconnected_slot_is_skipped_witness:
  \<open>checkSeaDriveEvents disconnected MessagePoller_new = ([], MessagePoller_new)
   \<and> checkSyncErrors sample_env disconnected MessagePoller_new = ([], MessagePoller_new)
   \<and> trayIcon_sync_errors [SyncError JNull]
        (fst (checkSyncErrors sample_env connected_idle MessagePoller_new)) = []\<close>
  using disconnected_slot_is_skipped
      [where rpc_client = disconnected and p = MessagePoller_new and e = sample_env]
    disconnected_slot_is_skipped
      [where rpc_client = connected_idle and p = MessagePoller_new and e = sample_env
         and errs = "[SyncError JNull]"]
  by (simp add: disconnected_def connected_idle_def)

text \<open>With the daemon disconnected, a tray icon that shows one error still shows it after
  the sync-errors slot has run: claim C1 as stated (the list is reset to empty on
  disconnect) fails.\<close>

theorem disconnected_keeps_sync_errors_counterexample:
  \<open>trayIcon_sync_errors [SyncError JNull]
      (fst (checkSyncErrors sample_env disconnected MessagePoller_new)) = [SyncError JNull]
   \<and> trayIcon_sync_errors [SyncError JNull]
      (fst (checkSyncErrors sample_env disconnected MessagePoller_new)) \<noteq> []\<close>
  by (simp add: checkSyncErrors_def disconnected_def)

text \<open>
  Claim C9. Whenever the sync-status slot decodes a payload, it calls \<^verbatim>\<open>rotate\<close> with the
  decoded \<open>is_syncing\<close> and then \<^verbatim>\<open>setTransferRate\<close>: with the decoded sent and received
  bytes when syncing, with \<open>(0, 0)\<close> when not. The two calls are made on every such tick:
  they do not depend on the poller's state, which keeps nothing of the previous tick's
  status.
\<close>

theorem sync_status_sets_tray_every_tick:
  assumes "isConnected rpc_client"
      and "getGlobalSyncStatus rpc_client = Some ret"
  shows \<open>checkSyncStatus rpc_client p =
           ([Rotate (getLong ret ''is_syncing'' \<noteq> 0),
             (if getLong ret ''is_syncing'' \<noteq> 0
              then SetTransferRate (getLong ret ''sent_bytes'') (getLong ret ''recv_bytes'')
              else SetTransferRate 0 0)], p)
         \<and> is_syncing (GlobalSyncStatus_fromJson ret) = (getLong ret ''is_syncing'' \<noteq> 0)
         \<and> sent_bytes (GlobalSyncStatus_fromJson ret) = getLong ret ''sent_bytes''
         \<and> recv_bytes (GlobalSyncStatus_fromJson ret) = getLong ret ''recv_bytes''
         \<and> fst (checkSyncStatus rpc_client p') = fst (checkSyncStatus rpc_client p)\<close>
  using assms
  by (simp add: checkSyncStatus_def GlobalSyncStatus_fromJson_def Let_def)

theorem sync_status_sets_tray_every_tick_witness:
  \<open>checkSyncStatus
      (connected_idle\<lparr>getGlobalSyncStatus :=
         Some (JObject [(''is_syncing'', JInt 1), (''sent_bytes'', JInt 2048),
                        (''recv_bytes'', JInt 512)])\<rparr>) MessagePoller_new =
     ([Rotate True, SetTransferRate 2048 512], MessagePoller_new)
   \<and> checkSyncStatus
      (connected_idle\<lparr>getGlobalSyncStatus :=
         Some (JObject [(''is_syncing'', JInt 0), (''sent_bytes'', JInt 2048),
                        (''recv_bytes'', JInt 512)])\<rparr>) MessagePoller_new =
     ([Rotate False, SetTransferRate 0 0], MessagePoller_new)\<close>
  using sync_status_sets_tray_every_tick
    [where rpc_client = "connected_idle\<lparr>getGlobalSyncStatus :=
         Some (JObject [(''is_syncing'', JInt 1), (''sent_bytes'', JInt 2048),
                        (''recv_bytes'', JInt 512)])\<rparr>" and p = MessagePoller_new]
   sync_status_sets_tray_every_tick
    [where rpc_client = "connected_idle\<lparr>getGlobalSyncStatus :=
         Some (JObject [(''is_syncing'', JInt 0), (''sent_bytes'', JInt 2048),
                        (''recv_bytes'', JInt 512)])\<rparr>" and p = MessagePoller_new]
  by (simp add: connected_idle_def disconnected_def getLong_def json_object_get_def)

subsection \<open>Deletion confirmations\<close>

lemma arg_delete_files_info:
  \<open>arg ''Do you want to delete files in library "%1" ?'' x =
     ''Do you want to delete files in library "'' @ x @ ''" ?''\<close>
  by (simp add: arg_def digitValue_def)

lemma arg_deleted_library:
  \<open>arg ''Deleted library "%1"'' x = ''Deleted library "'' @ x @ ''"''\<close>
  by (simp add: arg_def digitValue_def)

lemma arg_confirm_delete_library:
  \<open>arg ''Confirm to delete library "%1" ?'' x = ''Confirm to delete library "'' @ x @ ''" ?''\<close>
  by (simp add: arg_def digitValue_def)

lemma processNotification_del_confirmation:
  assumes "n_type n = ''del_confirmation''"
  shows \<open>\<exists>text.
           processNotification e n =
             [DeletingConfirmationBox text
                (''Do you want to delete files in library "'' @ trimmed (repo_name n) @ ''" ?''),
              AddDelConfirmation (confirmation_id n)
                (\<not> confirmationBoxAnswer e text
                     (''Do you want to delete files in library "'' @ trimmed (repo_name n)
                      @ ''" ?''))]\<close>
  using assms
  by (simp add: processNotification_def isCrossRepoMove_def startsWith_def Let_def
      arg_delete_files_info tr_def)

lemma processNotification_del_repo_confirmation:
  assumes "n_type n = ''del_repo_confirmation''"
  shows \<open>processNotification e n =
             [DeletingConfirmationBox (''Deleted library "'' @ trimmed (repo_name n) @ ''"'')
                (''Confirm to delete library "'' @ trimmed (repo_name n) @ ''" ?''),
              AddDelConfirmation (confirmation_id n)
                (\<not> confirmationBoxAnswer e
                     (''Deleted library "'' @ trimmed (repo_name n) @ ''"'')
                     (''Confirm to delete library "'' @ trimmed (repo_name n) @ ''" ?''))]\<close>
  using assms
  by (simp add: processNotification_def isCrossRepoMove_def startsWith_def Let_def
      arg_deleted_library arg_confirm_delete_library tr_def)

lemma fromJson_del_confirmation:
  assumes "getString ret ''type'' = ''del_confirmation'' \<or>
           getString ret ''type'' = ''del_repo_confirmation''"
  shows "n_type (SyncNotification_fromJson e ret) = getString ret ''type''
       \<and> confirmation_id (SyncNotification_fromJson e ret) = getString ret ''confirmation_id''"
  using assms
  by (auto simp add: SyncNotification_fromJson_def startsWith_def Let_def)

text \<open>
  Claim C3. A received notification of type \<^verbatim>\<open>del_confirmation\<close> or
  \<^verbatim>\<open>del_repo_confirmation\<close> shows the confirmation dialog and then makes exactly one
  \<^verbatim>\<open>addDelConfirmation\<close> call, with the payload's confirmation id, whatever the dialog
  returns: the boolean passed is false when the dialog returns true (the user confirmed)
  and true when it returns false (the user declined or dismissed it).
\<close>

theorem del_confirmation_answered_once:
  assumes conn: "isConnected rpc_client"
      and ret: "getSyncNotification rpc_client = Some ret"
      and tag: "getString ret ''type'' = ''del_confirmation'' \<or>
                getString ret ''type'' = ''del_repo_confirmation''"
  shows \<open>\<exists>text info.
           fst (checkNotification e rpc_client p) =
             [DeletingConfirmationBox text info,
              AddDelConfirmation (getString ret ''confirmation_id'')
                (\<not> confirmationBoxAnswer e text info)]
         \<and> length (filter isAddDelConfirmation (fst (checkNotification e rpc_client p))) = 1\<close>
proof -
  let ?n = "SyncNotification_fromJson e ret"
  have run: "fst (checkNotification e rpc_client p) = processNotification e ?n"
    using conn ret by (simp add: checkNotification_def)
  have dec: "n_type ?n = getString ret ''type''"
    "confirmation_id ?n = getString ret ''confirmation_id''"
    using fromJson_del_confirmation [OF tag] by simp_all
  from tag show ?thesis
  proof
    assume "getString ret ''type'' = ''del_confirmation''"
    then have "n_type ?n = ''del_confirmation''" using dec by simp
    from processNotification_del_confirmation [OF this, of e]
    obtain t where
      \<open>processNotification e ?n =
         [DeletingConfirmationBox t
            (''Do you want to delete files in library "'' @ trimmed (repo_name ?n) @ ''" ?''),
          AddDelConfirmation (confirmation_id ?n)
            (\<not> confirmationBoxAnswer e t
                 (''Do you want to delete files in library "'' @ trimmed (repo_name ?n)
                  @ ''" ?''))]\<close>
      by blast
    then show ?thesis using run dec by simp
  next
    assume "getString ret ''type'' = ''del_repo_confirmation''"
    then have "n_type ?n = ''del_repo_confirmation''" using dec by simp
    from processNotification_del_repo_confirmation [OF this, of e]
    show ?thesis using run dec by simp
  qed
qed

theorem del_confirmation_answered_once_witness:
  \<open>length (filter isAddDelConfirmation
      (fst (checkNotification sample_env
              (connected_idle\<lparr>getSyncNotification := Some del_confirmation_payload\<rparr>)
              MessagePoller_new))) = 1
   \<and> AddDelConfirmation ''c-17'' False \<in> set
      (fst (checkNotification sample_env
              (connected_idle\<lparr>getSyncNotification := Some del_confirmation_payload\<rparr>)
              MessagePoller_new))\<close>
  using del_confirmation_answered_once
    [where rpc_client = "connected_idle\<lparr>getSyncNotification := Some del_confirmation_payload\<rparr>"
       and ret = del_confirmation_payload and e = sample_env and p = MessagePoller_new]
  by (auto simp add: connected_idle_def disconnected_def del_confirmation_payload_def
      getString_def json_object_get_def sample_env_def)

subsection \<open>Moves across libraries\<close>

lemma arg_move_start: \<open>arg ''Starting to move "%1"'' x = ''Starting to move "'' @ x @ ''"''\<close>
  by (simp add: arg_def digitValue_def)

lemma arg_move_done: \<open>arg ''Successfully moved "%1"'' x = ''Successfully moved "'' @ x @ ''"''\<close>
  by (simp add: arg_def digitValue_def)

lemma arg_move_error: \<open>arg ''Failed to move "%1"'' x = ''Failed to move "'' @ x @ ''"''\<close>
  by (simp add: arg_def digitValue_def)

lemma arg2_move_start:
  \<open>arg2 ''Starting to move "%1" to "%2"'' x y =
     ''Starting to move "'' @ x @ ''" to "'' @ y @ ''"''\<close>
  by (simp add: arg2_def digitValue_def)

lemma arg2_move_done:
  \<open>arg2 ''Successfully moved "%1" to "%2"'' x y =
     ''Successfully moved "'' @ x @ ''" to "'' @ y @ ''"''\<close>
  by (simp add: arg2_def digitValue_def)

lemma arg2_move_error:
  \<open>arg2 ''Failed to move "%1" to "%2"'' x y =
     ''Failed to move "'' @ x @ ''" to "'' @ y @ ''"''\<close>
  by (simp add: arg2_def digitValue_def)

lemma split_not_Nil: "split c xs \<noteq> []"
  by (induction xs) (auto split: list.splits)

lemma split_no_separator: "c \<notin> set ys \<Longrightarrow> split c ys = [ys]"
  by (induction ys) auto

lemma split_append: "split c (xs @ c # ys) = split c xs @ split c ys"
proof (induction xs)
  case Nil
  show ?case by simp
next
  case (Cons x xs)
  show ?case
  proof (cases "x = c")
    case True
    then show ?thesis using Cons.IH by simp
  next
    case False
    obtain w ws where w: "split c xs = w # ws"
      using split_not_Nil [of c xs] by (cases "split c xs") auto
    show ?thesis using False Cons.IH w by simp
  qed
qed

lemma last_split: "c \<notin> set ys \<Longrightarrow> last (split c (xs @ c # ys)) = ys"
  by (simp add: split_append split_not_Nil split_no_separator)

lemma cross_repo_move_tag:
  assumes "startsWith t ''cross-repo-move.''"
  shows "t \<noteq> ''sync.done'' \<and> t \<noteq> ''sync.error'' \<and> t \<noteq> ''sync.multipart_upload''
       \<and> t \<noteq> ''fs-loaded''"
  using assms by (auto simp add: startsWith_def)

lemma processNotification_cross_repo_move:
  assumes "isCrossRepoMove n"
  shows \<open>processNotification e n =
           [ShowMessage
              (if move_type (move n) = ''start''
               then ''Starting to move "'' @ getBaseName (src_path (move n)) @ ''"''
               else if move_type (move n) = ''done''
               then ''Successfully moved "'' @ getBaseName (src_path (move n)) @ ''"''
               else if move_type (move n) = ''error''
               then ''Failed to move "'' @ getBaseName (src_path (move n)) @ ''"''
               else [])
              (if move_type (move n) = ''start''
               then ''Starting to move "'' @ getBaseName (src_path (move n)) @ ''" to "''
                    @ (getParentPath (dst_path (move n)) @ ''/'') @ ''"''
               else if move_type (move n) = ''done''
               then ''Successfully moved "'' @ getBaseName (src_path (move n)) @ ''" to "''
                    @ (getParentPath (dst_path (move n)) @ ''/'') @ ''"''
               else if move_type (move n) = ''error''
               then ''Failed to move "'' @ getBaseName (src_path (move n)) @ ''" to "''
                    @ (getParentPath (dst_path (move n)) @ ''/'') @ ''"''
               else [])
              [] [] [] Information]\<close>
proof -
  have "startsWith (n_type n) ''cross-repo-move.''"
    using assms by (simp add: isCrossRepoMove_def)
  from cross_repo_move_tag [OF this] show ?thesis
    using assms
    by (simp add: processNotification_def Let_def tr_def arg_move_start arg_move_done
        arg_move_error arg2_move_start arg2_move_done arg2_move_error)
qed


lemma fromJson_cross_repo_move:
  assumes "getString ret ''type'' = ''cross-repo-move.'' @ sub" and "CHR ''.'' \<notin> set sub"
  shows "isCrossRepoMove (SyncNotification_fromJson e ret)
       \<and> move (SyncNotification_fromJson e ret) =
           \<lparr>src_path = getString ret ''srcpath'', dst_path = getString ret ''dstpath'',
            move_type = sub\<rparr>"
proof -
  have "last (split CHR ''.'' (''cross-repo-move'' @ CHR ''.'' # sub)) = sub"
    using assms(2) by (rule last_split)
  then show ?thesis
    using assms(1)
    by (simp add: SyncNotification_fromJson_def isCrossRepoMove_def startsWith_def Let_def)
qed

text \<open>
  Claim C7. For a cross-repo-move notification the poller shows one informational message.
  Its title and body are built from the base name of the source path and the parent path
  of the destination, with a wording of its own for each of the subtypes \<^verbatim>\<open>start\<close>,
  \<^verbatim>\<open>done\<close> and \<^verbatim>\<open>error\<close>; any other subtype gives an empty title and an empty body,
  and the message is shown all the same. Two recognised subtypes that differ never give
  the same message, whatever the paths. The subtype is the part of the tag after its last
  dot.
\<close>

theorem cross_repo_move_subtype_texts:
  assumes "isCrossRepoMove n"
  shows \<open>(let src = getBaseName (src_path (move n));
               dst = getParentPath (dst_path (move n)) @ ''/'';
               subtype = move_type (move n)
           in processNotification e n =
                [ShowMessage
                   (if subtype = ''start'' then ''Starting to move "'' @ src @ ''"''
                    else if subtype = ''done'' then ''Successfully moved "'' @ src @ ''"''
                    else if subtype = ''error'' then ''Failed to move "'' @ src @ ''"''
                    else [])
                   (if subtype = ''start''
                    then ''Starting to move "'' @ src @ ''" to "'' @ dst @ ''"''
                    else if subtype = ''done''
                    then ''Successfully moved "'' @ src @ ''" to "'' @ dst @ ''"''
                    else if subtype = ''error''
                    then ''Failed to move "'' @ src @ ''" to "'' @ dst @ ''"''
                    else [])
                   [] [] [] Information])
         \<and> (isCrossRepoMove n'
              \<and> move_type (move n) \<in> {''start'', ''done'', ''error''}
              \<and> move_type (move n') \<in> {''start'', ''done'', ''error''}
              \<and> move_type (move n) \<noteq> move_type (move n')
            \<longrightarrow> processNotification e n \<noteq> processNotification e' n')
         \<and> (getString ret ''type'' = ''cross-repo-move.'' @ sub \<and> CHR ''.'' \<notin> set sub
            \<longrightarrow> isCrossRepoMove (SyncNotification_fromJson e ret)
              \<and> move (SyncNotification_fromJson e ret) =
                  \<lparr>src_path = getString ret ''srcpath'', dst_path = getString ret ''dstpath'',
                   move_type = sub\<rparr>)\<close>
proof (intro conjI impI)
  show \<open>let src = getBaseName (src_path (move n));
             dst = getParentPath (dst_path (move n)) @ ''/'';
             subtype = move_type (move n)
         in processNotification e n =
                [ShowMessage
                   (if subtype = ''start'' then ''Starting to move "'' @ src @ ''"''
                    else if subtype = ''done'' then ''Successfully moved "'' @ src @ ''"''
                    else if subtype = ''error'' then ''Failed to move "'' @ src @ ''"''
                    else [])
                   (if subtype = ''start''
                    then ''Starting to move "'' @ src @ ''" to "'' @ dst @ ''"''
                    else if subtype = ''done''
                    then ''Successfully moved "'' @ src @ ''" to "'' @ dst @ ''"''
                    else if subtype = ''error''
                    then ''Failed to move "'' @ src @ ''" to "'' @ dst @ ''"''
                    else [])
                   [] [] [] Information]\<close>
    using processNotification_cross_repo_move [OF assms, of e] by (simp add: Let_def)
next
  assume h: "isCrossRepoMove n'
              \<and> move_type (move n) \<in> {''start'', ''done'', ''error''}
              \<and> move_type (move n') \<in> {''start'', ''done'', ''error''}
              \<and> move_type (move n) \<noteq> move_type (move n')"
  then have n': "isCrossRepoMove n'" by simp
  show "processNotification e n \<noteq> processNotification e' n'"
    using h
    by (auto simp add: processNotification_cross_repo_move [OF assms]
        processNotification_cross_repo_move [OF n'])
next
  assume "getString ret ''type'' = ''cross-repo-move.'' @ sub \<and> CHR ''.'' \<notin> set sub"
  then show "isCrossRepoMove (SyncNotification_fromJson e ret)"
    and "move (SyncNotification_fromJson e ret) =
           \<lparr>src_path = getString ret ''srcpath'', dst_path = getString ret ''dstpath'',
            move_type = sub\<rparr>"
    using fromJson_cross_repo_move [of ret sub e] by simp_all
qed

theorem cross_repo_move_subtype_texts_witness:
  \<open>processNotification sample_env
      (SyncNotification_fromJson sample_env (cross_repo_move_payload ''cross-repo-move.done'')) =
     [ShowMessage ''Successfully moved "b.txt"''
        ''Successfully moved "b.txt" to "/lib2/dir/"'' [] [] [] Information]
   \<and> processNotification sample_env
      (SyncNotification_fromJson sample_env (cross_repo_move_payload ''cross-repo-move.copy'')) =
     [ShowMessage [] [] [] [] [] Information]\<close>
  using cross_repo_move_subtype_texts
    [where n = "SyncNotification_fromJson sample_env
                  (cross_repo_move_payload ''cross-repo-move.done'')" and e = sample_env]
    cross_repo_move_subtype_texts
    [where n = "SyncNotification_fromJson sample_env
                  (cross_repo_move_payload ''cross-repo-move.copy'')" and e = sample_env]
  by (simp add: SyncNotification_fromJson_def cross_repo_move_payload_def isCrossRepoMove_def
      startsWith_def getString_def json_object_get_def getBaseName_def getParentPath_def
      Let_def)

subsection \<open>The life-cycle slots and the timer\<close>

lemma QTimer_stop_registered:
  assumes "d = (case timer_id t of None \<Rightarrow> [] | Some i \<Rightarrow> [(i, inter t)])"
  shows "QTimer_stop (t, d) = (t\<lparr>timer_id := None\<rparr>, [])"
  using assms by (cases "timer_id t") (simp_all add: QTimer_stop_def killTimer_def)

lemma QTimer_start_registered:
  assumes "d = (case timer_id t of None \<Rightarrow> [] | Some i \<Rightarrow> [(i, inter t)])"
  shows "QTimer_start msec (t, d) = (\<lparr>timer_id = Some 1, inter = msec\<rparr>, [(1, msec)])"
proof -
  have "QTimer_stop (t\<lparr>inter := msec\<rparr>, d) = (t\<lparr>inter := msec, timer_id := None\<rparr>, [])"
    using assms by (cases "timer_id t") (simp_all add: QTimer_stop_def killTimer_def)
  then show ?thesis
    by (simp add: QTimer_start_def startTimer_def Let_def)
qed

lemma onDaemonDead_registered:
  assumes "registered_once pd"
  shows "snd (snd (onDaemonDead pd)) = [] \<and> registered_once (snd (onDaemonDead pd))"
proof -
  obtain p d where pd: "pd = (p, d)" by (cases pd)
  have "d = (case timer_id (check_notification_timer p) of
               None \<Rightarrow> [] | Some i \<Rightarrow> [(i, inter (check_notification_timer p))])"
    using assms pd by simp
  from QTimer_stop_registered [OF this] show ?thesis
    using pd by (simp add: onDaemonDead_def)
qed

lemma onDaemonRestarted_registered:
  assumes "registered_once pd"
  shows "map snd (snd (snd (onDaemonRestarted pd))) = [kCheckNotificationIntervalMSecs]
       \<and> registered_once (snd (onDaemonRestarted pd))"
proof -
  obtain p d where pd: "pd = (p, d)" by (cases pd)
  have "d = (case timer_id (check_notification_timer p) of
               None \<Rightarrow> [] | Some i \<Rightarrow> [(i, inter (check_notification_timer p))])"
    using assms pd by simp
  from QTimer_start_registered [OF this, of kCheckNotificationIntervalMSecs] show ?thesis
    using pd by (simp add: onDaemonRestarted_def)
qed

lemma start_registered:
  assumes "registered_once pd"
  shows "registered_once (start pd)"
proof -
  obtain p d where pd: "pd = (p, d)" by (cases pd)
  have "d = (case timer_id (check_notification_timer p) of
               None \<Rightarrow> [] | Some i \<Rightarrow> [(i, inter (check_notification_timer p))])"
    using assms pd by simp
  from QTimer_start_registered [OF this, of kCheckNotificationIntervalMSecs] show ?thesis
    using pd by (simp add: start_def)
qed

lemma deliver_registered: "registered_once pd \<Longrightarrow> registered_once (deliver s pd)"
  by (cases s) (simp_all add: onDaemonDead_registered onDaemonRestarted_registered
      start_registered)

lemma run_signals_registered:
  "registered_once pd \<Longrightarrow> registered_once (run_signals sigs pd)"
  by (induction sigs arbitrary: pd) (simp_all add: deliver_registered)

lemma run_signals_append:
  "run_signals (xs @ ys) pd = run_signals ys (run_signals xs pd)"
  by (induction xs arbitrary: pd) simp_all

lemma new_registered: "registered_once (MessagePoller_new, [])"
  by (simp add: MessagePoller_new_def)

lemma onDaemonDead_twice: "snd (onDaemonDead (snd (onDaemonDead pd))) = snd (onDaemonDead pd)"
  by (cases "timer_id (check_notification_timer (fst pd))")
    (simp_all add: onDaemonDead_def QTimer_stop_def Let_def)

text \<open>
  Claim C8. The poll interval is 1000 ms. After any history of signals, any number of
  \<^verbatim>\<open>onDaemonDead\<close> calls followed by \<^verbatim>\<open>onDaemonRestarted\<close> leaves exactly one timer
  registered, at that interval; so does \<^verbatim>\<open>onDaemonRestarted\<close> called once or many
  times in a row (a start on a running timer registers no second timer); after one or
  more \<^verbatim>\<open>onDaemonDead\<close> calls no timer is registered; and a second \<^verbatim>\<open>onDaemonDead\<close>
  in a row changes nothing.
\<close>

theorem lifecycle_keeps_one_timer:
  \<open>kCheckNotificationIntervalMSecs = 1000
   \<and> map snd (snd (run_signals (history @ replicate k DaemonDead @ [DaemonRestarted])
                     (MessagePoller_new, []))) = [kCheckNotificationIntervalMSecs]
   \<and> map snd (snd (run_signals (history @ replicate (Suc k) DaemonRestarted)
                     (MessagePoller_new, []))) = [kCheckNotificationIntervalMSecs]
   \<and> snd (run_signals (history @ replicate (Suc k) DaemonDead) (MessagePoller_new, [])) = []
   \<and> snd (onDaemonDead (snd (onDaemonDead pd))) = snd (onDaemonDead pd)\<close>
proof -
  have reach: "registered_once (run_signals sigs (MessagePoller_new, []))" for sigs
    using new_registered by (rule run_signals_registered)
  have restarted:
    "map snd (snd (run_signals (sigs @ [DaemonRestarted]) (MessagePoller_new, []))) =
       [kCheckNotificationIntervalMSecs]" for sigs
    using onDaemonRestarted_registered [OF reach [of sigs]] by (simp add: run_signals_append)
  have dead: "snd (run_signals (sigs @ [DaemonDead]) (MessagePoller_new, [])) = []" for sigs
    using onDaemonDead_registered [OF reach [of sigs]] by (simp add: run_signals_append)
  have a: "map snd (snd (run_signals (history @ replicate k DaemonDead @ [DaemonRestarted])
                     (MessagePoller_new, []))) = [kCheckNotificationIntervalMSecs]"
    using restarted [of "history @ replicate k DaemonDead"] by simp
  have b: "map snd (snd (run_signals (history @ replicate (Suc k) DaemonRestarted)
                     (MessagePoller_new, []))) = [kCheckNotificationIntervalMSecs]"
    using restarted [of "history @ replicate k DaemonRestarted"]
    by (simp add: replicate_append_same)
  have c: "snd (run_signals (history @ replicate (Suc k) DaemonDead) (MessagePoller_new, [])) = []"
    using dead [of "history @ replicate k DaemonDead"]
    by (simp add: replicate_append_same)
  show ?thesis
    using a b c onDaemonDead_twice [of pd] by (simp add: kCheckNotificationIntervalMSecs_def)
qed

theorem lifecycle_keeps_one_timer_witness:
  \<open>snd (run_signals [Started, DaemonDead, DaemonDead, DaemonRestarted]
          (MessagePoller_new, [])) = [(1, 1000)]
   \<and> snd (run_signals [Started, DaemonRestarted, DaemonRestarted]
          (MessagePoller_new, [])) = [(1, 1000)]\<close>
  using lifecycle_keeps_one_timer [of "[Started]" 2]
  by (simp add: start_def onDaemonDead_def onDaemonRestarted_def QTimer_start_def
      QTimer_stop_def startTimer_def killTimer_def MessagePoller_new_def
      kCheckNotificationIntervalMSecs_def Let_def)

subsection \<open>The notification decoder\<close>

lemma processNotification_unknown:
  assumes "unknown_tag (n_type n)"
  shows "processNotification e n = [QWarning (''Unknown message '' @ n_type n @ [CHR 0x0A])]"
  using assms
  by (simp add: processNotification_def unknown_tag_def known_tags_def isCrossRepoMove_def)

lemma fromJson_n_type: "n_type (SyncNotification_fromJson e ret) = getString ret ''type''"
  by (simp add: SyncNotification_fromJson_def Let_def isSyncError_def)


lemma fromJson_cross: 
  assumes "startsWith (getString ret ''type'') ''cross-repo-move.''"
  shows "(SyncNotification_fromJson e ret)
            \<lparr>move := \<lparr>src_path = [], dst_path = [], move_type = []\<rparr>\<rparr> =
           SyncNotification_new\<lparr>n_type := getString ret ''type''\<rparr>"
  using assms by (simp add: SyncNotification_fromJson_def SyncNotification_new_def Let_def)

lemma fromJson_del:
  assumes "getString ret ''type'' = ''del_confirmation''"
  shows "(SyncNotification_fromJson e ret)
            \<lparr>repo_name := [], confirmation_id := [], delete_files := []\<rparr> =
           SyncNotification_new\<lparr>n_type := getString ret ''type''\<rparr>"
  using assms
  by (simp add: SyncNotification_fromJson_def SyncNotification_new_def Let_def startsWith_def)

lemma fromJson_del_repo:
  assumes "getString ret ''type'' = ''del_repo_confirmation''"
  shows "(SyncNotification_fromJson e ret)\<lparr>repo_name := [], confirmation_id := []\<rparr> =
           SyncNotification_new\<lparr>n_type := getString ret ''type''\<rparr>"
  using assms
  by (simp add: SyncNotification_fromJson_def SyncNotification_new_def Let_def startsWith_def)

lemma fromJson_action:
  assumes "getString ret ''type'' = ''action.get_share_link'' \<or>
           getString ret ''type'' = ''action.get_internal_link'' \<or>
           getString ret ''type'' = ''action.get_upload_link'' \<or>
           getString ret ''type'' = ''action.view_file_history''"
  shows "(SyncNotification_fromJson e ret)
            \<lparr>repo_id := [], repo_path := [], domain_id := [], is_dir := None\<rparr> =
           SyncNotification_new\<lparr>n_type := getString ret ''type''\<rparr>"
proof -
  have "\<not> startsWith (getString ret ''type'') ''cross-repo-move.''"
    "getString ret ''type'' \<noteq> ''del_confirmation''"
    "getString ret ''type'' \<noteq> ''del_repo_confirmation''"
    using assms by (auto simp add: startsWith_def)
  then show ?thesis
    using assms
    by (simp add: SyncNotification_fromJson_def SyncNotification_new_def Let_def)
qed

lemma fromJson_sync_error:
  assumes "getString ret ''type'' = ''sync.error''"
  shows "(SyncNotification_fromJson e ret)
            \<lparr>repo_id := [], repo_name := [], commit_id := [], parent_commit_id := [],
             commit_desc := [], error_id := None, error_path := [], error := []\<rparr> =
           SyncNotification_new\<lparr>n_type := getString ret ''type''\<rparr>"
  using assms
  by (simp add: SyncNotification_fromJson_def SyncNotification_new_def Let_def startsWith_def
      isSyncError_def)

lemma fromJson_default:
  assumes "\<not> startsWith (getString ret ''type'') ''cross-repo-move.''"
      and "getString ret ''type'' \<noteq> ''del_confirmation''"
      and "getString ret ''type'' \<noteq> ''del_repo_confirmation''"
      and "getString ret ''type'' \<noteq> ''action.get_share_link''"
      and "getString ret ''type'' \<noteq> ''action.get_internal_link''"
      and "getString ret ''type'' \<noteq> ''action.get_upload_link''"
      and "getString ret ''type'' \<noteq> ''action.view_file_history''"
      and "getString ret ''type'' \<noteq> ''sync.error''"
  shows "SyncNotification_fromJson e ret =
           SyncNotification_new\<lparr>n_type := getString ret ''type'',
              repo_id := getString ret ''repo_id'',
              repo_name := getString ret ''repo_name'',
              commit_id := getString ret ''commit_id'',
              parent_commit_id := getString ret ''parent_commit_id'',
              commit_desc := getString ret ''commit_desc''\<rparr>"
  using assms
  by (simp add: SyncNotification_fromJson_def SyncNotification_new_def Let_def isSyncError_def)

text \<open>
  Claim C2, as the code has it. The decoder assigns only the fields of the branch that the
  \<^verbatim>\<open>type\<close> tag selects: erasing those fields gives back the newly constructed record
  with the tag alone. The branches are the move fields for a cross-repo move; the library
  name, the confirmation id and (for \<^verbatim>\<open>del_confirmation\<close>) the deleted files for the two
  confirmations; the library id, the path, the domain id and \<open>is_dir\<close> for the four
  actions; and, for every other tag, the sync fields \<open>repo_id\<close>, \<open>repo_name\<close>,
  \<open>commit_id\<close>, \<open>parent_commit_id\<close> and \<open>commit_desc\<close>, with the three error fields added
  for \<^verbatim>\<open>sync.error\<close>. A tag that matches no known variant goes through that last
  branch: the record carries the raw tag and the sync fields of the payload (empty where
  the payload has none), every other field stays as constructed, and the caller only logs
  a warning.
\<close>

theorem decoder_populates_selected_branch_only:
  \<open>(let n = SyncNotification_fromJson e ret;
        t = getString ret ''type'';
        bare = SyncNotification_new\<lparr>n_type := t\<rparr>
    in (startsWith t ''cross-repo-move.'' \<longrightarrow>
          n\<lparr>move := \<lparr>src_path = [], dst_path = [], move_type = []\<rparr>\<rparr> = bare)
     \<and> (t = ''del_confirmation'' \<longrightarrow>
          n\<lparr>repo_name := [], confirmation_id := [], delete_files := []\<rparr> = bare)
     \<and> (t = ''del_repo_confirmation'' \<longrightarrow>
          n\<lparr>repo_name := [], confirmation_id := []\<rparr> = bare)
     \<and> (t = ''action.get_share_link'' \<or> t = ''action.get_internal_link'' \<or>
        t = ''action.get_upload_link'' \<or> t = ''action.view_file_history'' \<longrightarrow>
          n\<lparr>repo_id := [], repo_path := [], domain_id := [], is_dir := None\<rparr> = bare)
     \<and> (t = ''sync.error'' \<longrightarrow>
          n\<lparr>repo_id := [], repo_name := [], commit_id := [], parent_commit_id := [],
            commit_desc := [], error_id := None, error_path := [], error := []\<rparr> = bare)
     \<and> (\<not> startsWith t ''cross-repo-move.'' \<and> t \<noteq> ''del_confirmation'' \<and>
        t \<noteq> ''del_repo_confirmation'' \<and> t \<noteq> ''action.get_share_link'' \<and>
        t \<noteq> ''action.get_internal_link'' \<and> t \<noteq> ''action.get_upload_link'' \<and>
        t \<noteq> ''action.view_file_history'' \<and> t \<noteq> ''sync.error'' \<longrightarrow>
          n = bare\<lparr>repo_id := getString ret ''repo_id'',
                    repo_name := getString ret ''repo_name'',
                    commit_id := getString ret ''commit_id'',
                    parent_commit_id := getString ret ''parent_commit_id'',
                    commit_desc := getString ret ''commit_desc''\<rparr>)
     \<and> (unknown_tag t \<longrightarrow>
          processNotification e n = [QWarning (''Unknown message '' @ t @ [CHR 0x0A])]))\<close>
  unfolding Let_def
proof (intro conjI impI)
  assume "unknown_tag (getString ret ''type'')"
  then have "unknown_tag (n_type (SyncNotification_fromJson e ret))"
    by (simp add: fromJson_n_type)
  from processNotification_unknown [OF this, of e]
  show "processNotification e (SyncNotification_fromJson e ret) =
          [QWarning (''Unknown message '' @ getString ret ''type'' @ [CHR 0x0A])]"
    by (simp add: fromJson_n_type)
qed (simp_all add: fromJson_cross fromJson_del fromJson_del_repo fromJson_action
      fromJson_sync_error fromJson_default)

theorem decoder_populates_selected_branch_only_witness:
  \<open>delete_files (SyncNotification_fromJson sample_env del_confirmation_payload) =
      ''Deleted 5 files''
   \<and> (SyncNotification_fromJson sample_env del_confirmation_payload)
        \<lparr>repo_name := [], confirmation_id := [], delete_files := []\<rparr> =
      SyncNotification_new\<lparr>n_type := ''del_confirmation''\<rparr>
   \<and> SyncNotification_fromJson sample_env unknown_tag_payload =
      SyncNotification_new\<lparr>n_type := ''foo'', repo_id := ''r1''\<rparr>
   \<and> processNotification sample_env (SyncNotification_fromJson sample_env unknown_tag_payload) =
      [QWarning (''Unknown message foo'' @ [CHR 0x0A])]\<close>
  using decoder_populates_selected_branch_only
      [where ret = del_confirmation_payload and e = sample_env]
    decoder_populates_selected_branch_only
      [where ret = unknown_tag_payload and e = sample_env]
  by (simp add: Let_def del_confirmation_payload_def unknown_tag_payload_def getString_def
      json_object_get_def startsWith_def unknown_tag_def known_tags_def
      SyncNotification_new_def SyncNotification_fromJson_def isSyncError_def)

text \<open>A payload with the unknown tag \<^verbatim>\<open>foo\<close> and a \<^verbatim>\<open>repo_id\<close> decodes to a record
  whose \<open>repo_id\<close> is set: claim C2 as stated (an unknown tag yields the raw tag alone,
  every variant field empty) fails.\<close>

theorem unknown_tag_fields_counterexample:
  \<open>unknown_tag (getString unknown_tag_payload ''type'')
   \<and> repo_id (SyncNotification_fromJson sample_env unknown_tag_payload) = ''r1''
   \<and> SyncNotification_fromJson sample_env unknown_tag_payload \<noteq>
      SyncNotification_new\<lparr>n_type := getString unknown_tag_payload ''type''\<rparr>\<close>
  by (simp add: unknown_tag_payload_def getString_def json_object_get_def startsWith_def
      unknown_tag_def known_tags_def SyncNotification_new_def SyncNotification_fromJson_def
      isSyncError_def Let_def)

text \<open>
  Claim C6. A payload without a \<^verbatim>\<open>type\<close> field decodes, as a filesystem event, to the
  event of kind \<open>UNKNOWN_ERROR\<close> with an empty type, and, as a sync notification, to a
  record with the empty tag, which is an unknown tag: the caller only logs a warning.
  The decoders have no failing branch. Every lookup of an absent key gives the empty
  string, zero or false, so a payload with no field at all decodes to the newly
  constructed records.
\<close>

theorem decoding_without_type_is_unknown:
  assumes "json_object_get root ''type'' = None"
  shows \<open>SeaDriveEvent_fromJson root =
           ([QWarning ''unknown type of seadrive event ''],
            \<lparr>fs_op_error = UNKNOWN_ERROR, event_path = getString root ''path'',
             event_type = []\<rparr>)
         \<and> SyncNotification_fromJson e root =
           SyncNotification_new\<lparr>repo_id := getString root ''repo_id'',
              repo_name := getString root ''repo_name'',
              commit_id := getString root ''commit_id'',
              parent_commit_id := getString root ''parent_commit_id'',
              commit_desc := getString root ''commit_desc''\<rparr>
         \<and> n_type (SyncNotification_fromJson e root) = []
         \<and> unknown_tag (n_type (SyncNotification_fromJson e root))
         \<and> processNotification e (SyncNotification_fromJson e root) =
           [QWarning (''Unknown message '' @ [CHR 0x0A])]
         \<and> (\<forall>key. json_object_get root key = None \<longrightarrow>
               getString root key = [] \<and> getLong root key = 0 \<and> \<not> getBool root key)
         \<and> ((\<forall>key. json_object_get root key = None) \<longrightarrow>
               snd (SeaDriveEvent_fromJson root) =
                 \<lparr>fs_op_error = UNKNOWN_ERROR, event_path = [], event_type = []\<rparr>
             \<and> SyncNotification_fromJson e root = SyncNotification_new
             \<and> GlobalSyncStatus_fromJson root =
                 \<lparr>is_syncing = False, sent_bytes = 0, recv_bytes = 0\<rparr>)\<close>
proof -
  have t: "getString root ''type'' = []"
    using assms by (simp add: getString_def)
  have u: "unknown_tag []"
    by (simp add: unknown_tag_def known_tags_def startsWith_def)
  have n: "SyncNotification_fromJson e root =
           SyncNotification_new\<lparr>repo_id := getString root ''repo_id'',
              repo_name := getString root ''repo_name'',
              commit_id := getString root ''commit_id'',
              parent_commit_id := getString root ''parent_commit_id'',
              commit_desc := getString root ''commit_desc''\<rparr>"
    using t
    by (simp add: SyncNotification_fromJson_def SyncNotification_new_def Let_def
        isSyncError_def startsWith_def)
  have nt: "n_type (SyncNotification_fromJson e root) = []"
    using t by (simp add: fromJson_n_type)
  have w: "processNotification e (SyncNotification_fromJson e root) =
           [QWarning (''Unknown message '' @ [CHR 0x0A])]"
    using processNotification_unknown [of "SyncNotification_fromJson e root" e] u nt by simp
  have ev: "SeaDriveEvent_fromJson root =
           ([QWarning ''unknown type of seadrive event ''],
            \<lparr>fs_op_error = UNKNOWN_ERROR, event_path = getString root ''path'',
             event_type = []\<rparr>)"
    using t by (simp add: SeaDriveEvent_fromJson_def Let_def)
  have d: "\<forall>key. json_object_get root key = None \<longrightarrow>
               getString root key = [] \<and> getLong root key = 0 \<and> \<not> getBool root key"
    by (simp add: getString_def getLong_def getBool_def)
  have all: "(\<forall>key. json_object_get root key = None) \<longrightarrow>
               snd (SeaDriveEvent_fromJson root) =
                 \<lparr>fs_op_error = UNKNOWN_ERROR, event_path = [], event_type = []\<rparr>
             \<and> SyncNotification_fromJson e root = SyncNotification_new
             \<and> GlobalSyncStatus_fromJson root =
                 \<lparr>is_syncing = False, sent_bytes = 0, recv_bytes = 0\<rparr>"
    using d by (simp add: ev n GlobalSyncStatus_fromJson_def SyncNotification_new_def)
  show ?thesis
    using ev n nt u w d all by simp
qed

theorem decoding_without_type_is_unknown_witness:
  \<open>SeaDriveEvent_fromJson payload_without_type =
     ([QWarning ''unknown type of seadrive event ''],
      \<lparr>fs_op_error = UNKNOWN_ERROR, event_path = ''/mnt/x/foo.txt'', event_type = []\<rparr>)
   \<and> SyncNotification_fromJson sample_env payload_without_type = SyncNotification_new
   \<and> SyncNotification_fromJson sample_env JNull = SyncNotification_new\<close>
  using decoding_without_type_is_unknown [where root = payload_without_type and e = sample_env]
    decoding_without_type_is_unknown [where root = JNull and e = sample_env]
  by (simp add: payload_without_type_def getString_def json_object_get_def
      SyncNotification_new_def)

end
